theory Spec2Isabelle
  imports Complex_Main "HOL-Library.Product_Lexorder" "HOL-Library.Sublist" "HOL-Library.AList"
begin

section \<open>Python values and exceptions\<close>

text \<open>
  The exceptions the modelled code can raise. Every \<open>raise\<close> of the source, and every
  exception of a library call that the source relies on, is a value \<open>Inl e\<close> of a result
  type \<open>error + 'a\<close>.
\<close>

datatype error = KeyError | TypeError | ValueError | AttributeError | IndexError
  | ZeroDivisionError | IOError

text \<open>
  The values a parameter dictionary holds: the heuristic parser stores strings, integers
  and lists of strings; the oracle's JSON object may hold any of the kinds below (JSON
  numbers are modelled as integers, and \<open>true\<close>/\<open>false\<close> are left out). A dictionary
  is an association list in insertion order.
\<close>

datatype pyval = PNone | PInt int | PStr string | PList "pyval list"
  | PDict "(string \<times> pyval) list"

type_synonym pydict = "(string \<times> pyval) list"

text \<open>Python truthiness, as used by \<open>x or y\<close>, \<open>x and y\<close> and \<open>if x\<close>.\<close>

fun truthy :: "pyval \<Rightarrow> bool" where
  "truthy PNone = False"
| "truthy (PInt n) = (n \<noteq> 0)"
| "truthy (PStr s) = (s \<noteq> [])"
| "truthy (PList xs) = (xs \<noteq> [])"
| "truthy (PDict d) = (d \<noteq> [])"

text \<open>\<open>d.get(k, default)\<close> and \<open>d[k]\<close>.\<close>

definition dict_get :: "pydict \<Rightarrow> string \<Rightarrow> pyval \<Rightarrow> pyval" where
  "dict_get d k dflt = (case map_of d k of Some v \<Rightarrow> v | None \<Rightarrow> dflt)"

definition dict_item :: "pydict \<Rightarrow> string \<Rightarrow> error + pyval" where
  "dict_item d k = (case map_of d k of Some v \<Rightarrow> Inr v | None \<Rightarrow> Inl KeyError)"

text \<open>\<open>d[k] = v\<close>: an existing key keeps its place, a new key goes last.\<close>

definition dict_set :: "pydict \<Rightarrow> string \<Rightarrow> pyval \<Rightarrow> pydict" where
  "dict_set d k v = AList.update k v d"

section \<open>Timestamps\<close>

text \<open>
  A timestamp is a UTC instant (year, month, day, nanosecond of the day), ordered
  lexicographically. \<open>now - pd.DateOffset(months=n)\<close> moves the month back and clamps
  the day to the length of the month reached; \<open>years=n\<close> is twelve times that.
  The representable range of pandas timestamps is not modelled, and every time cell is
  taken to carry the UTC zone, as the clock of line 17 does: the exception that pandas
  raises when a column without a zone is compared with that clock is not modelled.
\<close>

type_synonym stamp = "int \<times> nat \<times> nat \<times> nat"

definition is_leap :: "int \<Rightarrow> bool" where
  "is_leap y = (y mod 4 = 0 \<and> (y mod 100 \<noteq> 0 \<or> y mod 400 = 0))"

definition days_in_month :: "int \<Rightarrow> nat \<Rightarrow> nat" where
  "days_in_month y m =
     (if m = 2 then (if is_leap y then 29 else 28)
      else if m = 4 \<or> m = 6 \<or> m = 9 \<or> m = 11 then 30 else 31)"

definition minus_months :: "stamp \<Rightarrow> int \<Rightarrow> stamp" where
  "minus_months t n =
     (case t of (y, m, d, ns) \<Rightarrow>
        (let total = y * 12 + (int m - 1) - n;
             y' = total div 12;
             m' = nat (total mod 12) + 1
         in (y', m', min d (days_in_month y' m'), ns)))"

definition minus_years :: "stamp \<Rightarrow> int \<Rightarrow> stamp" where
  "minus_years t n = minus_months t (12 * n)"

section \<open>Tables\<close>

text \<open>
  A cell of a pandas table: a missing value (NaN, NaT, None), a number, a string, or a
  parsed timestamp. A table has its column names and its rows, each row aligned with the
  columns. Numbers are exact rationals: comparisons of floats are exact, the rounding of
  float arithmetic is not modelled.
\<close>

datatype cell = Null | Num rat | Txt string | Stamp stamp

record dataframe =
  columns :: "string list"
  rows :: "cell list list"

text \<open>\<open>pd.DataFrame()\<close>, \<open>df.empty\<close> (some axis has length 0) and \<open>len(df)\<close>.\<close>

definition DataFrame :: dataframe where
  "DataFrame = \<lparr>columns = [], rows = []\<rparr>"

definition df_empty :: "dataframe \<Rightarrow> bool" where
  "df_empty df = (columns df = [] \<or> rows df = [])"

definition len :: "dataframe \<Rightarrow> nat" where
  "len df = length (rows df)"

text \<open>Reading and writing the cell of a row under a column name.\<close>

definition cell_at :: "string list \<Rightarrow> cell list \<Rightarrow> string \<Rightarrow> cell" where
  "cell_at cols r c = (case map_of (zip cols r) c of Some v \<Rightarrow> v | None \<Rightarrow> Null)"

fun set_cell :: "string list \<Rightarrow> cell list \<Rightarrow> string \<Rightarrow> cell \<Rightarrow> cell list" where
  "set_cell [] r c v = r"
| "set_cell (k # ks) [] c v = []"
| "set_cell (k # ks) (x # xs) c v = (if k = c then v # xs else x # set_cell ks xs c v)"

text \<open>\<open>df[c]\<close> for a column name raises KeyError when the column is absent.\<close>

definition col_values :: "dataframe \<Rightarrow> string \<Rightarrow> cell list" where
  "col_values df c = map (\<lambda>r. cell_at (columns df) r c) (rows df)"

definition column :: "dataframe \<Rightarrow> string \<Rightarrow> error + cell list" where
  "column df c = (if c \<in> set (columns df) then Inr (col_values df c) else Inl KeyError)"

text \<open>
  \<open>df[c] = values\<close>: an existing column is overwritten in place, a new one is appended
  on the right.
\<close>

definition assign :: "dataframe \<Rightarrow> string \<Rightarrow> cell list \<Rightarrow> dataframe" where
  "assign df c vs =
     (if c \<in> set (columns df)
      then df\<lparr>rows := map (\<lambda>(r, v). set_cell (columns df) r c v) (zip (rows df) vs)\<rparr>
      else df\<lparr>columns := columns df @ [c],
              rows := map (\<lambda>(r, v). r @ [v]) (zip (rows df) vs)\<rparr>)"

text \<open>\<open>df[mask]\<close>: the rows whose mask entry is true, the columns kept.\<close>

definition select :: "dataframe \<Rightarrow> bool list \<Rightarrow> dataframe" where
  "select df keep = df\<lparr>rows := map fst (filter snd (zip (rows df) keep))\<rparr>"

text \<open>The first exception of a list of results, else all the values.\<close>

fun collect :: "(error + 'a) list \<Rightarrow> error + 'a list" where
  "collect [] = Inr []"
| "collect (Inl e # xs) = Inl e"
| "collect (Inr v # xs) = (case collect xs of Inl e \<Rightarrow> Inl e | Inr vs \<Rightarrow> Inr (v # vs))"

text \<open>
  A comparison of a column with a number, element by element: a missing value compares
  false, a string or timestamp cell raises TypeError for the whole column.
\<close>

fun compare_num :: "(rat \<Rightarrow> bool) \<Rightarrow> cell \<Rightarrow> error + bool" where
  "compare_num p (Num x) = Inr (p x)"
| "compare_num p Null = Inr False"
| "compare_num p (Txt s) = Inl TypeError"
| "compare_num p (Stamp t) = Inl TypeError"

definition series_cmp :: "dataframe \<Rightarrow> string \<Rightarrow> (rat \<Rightarrow> bool) \<Rightarrow> error + bool list" where
  "series_cmp df c p =
     (case column df c of Inl e \<Rightarrow> Inl e | Inr vs \<Rightarrow> collect (map (compare_num p) vs))"

definition mask_and :: "bool list \<Rightarrow> bool list \<Rightarrow> bool list" where
  "mask_and xs ys = map (\<lambda>(a, b). a \<and> b) (zip xs ys)"

text \<open>Sequencing of computations that may raise: the first exception wins.\<close>

definition and_then :: "error + 'a \<Rightarrow> ('a \<Rightarrow> error + 'b) \<Rightarrow> error + 'b" where
  "and_then r f = (case r of Inl e \<Rightarrow> Inl e | Inr v \<Rightarrow> f v)"

section \<open>argo/utils.py: the bounding-box and time-window filter\<close>

text \<open>
  Line 14, \<open>lon_min, lon_max, lat_min, lat_max = bbox\<close>, and line 15, the four inclusive
  comparisons joined by \<open>&\<close>, evaluated left to right.
\<close>

definition bbox_filter :: "dataframe \<Rightarrow> int list \<Rightarrow> error + dataframe" where
  "bbox_filter df bbox =
     (case bbox of
        [lon_min, lon_max, lat_min, lat_max] \<Rightarrow>
          and_then (series_cmp df ''lon'' (\<lambda>x. x \<ge> of_int lon_min)) (\<lambda>m1.
          and_then (series_cmp df ''lon'' (\<lambda>x. x \<le> of_int lon_max)) (\<lambda>m2.
          and_then (series_cmp df ''lat'' (\<lambda>x. x \<ge> of_int lat_min)) (\<lambda>m3.
          and_then (series_cmp df ''lat'' (\<lambda>x. x \<le> of_int lat_max)) (\<lambda>m4.
            Inr (select df (mask_and (mask_and (mask_and m1 m2) m3) m4))))))
      | _ \<Rightarrow> Inl ValueError)"

text \<open>
  What the inclusive box says of one row: both coordinates are numbers and each lies
  between its two bounds, the bounds included.
\<close>

definition in_bbox :: "string list \<Rightarrow> int \<Rightarrow> int \<Rightarrow> int \<Rightarrow> int \<Rightarrow> cell list \<Rightarrow> bool" where
  "in_bbox cols lon_min lon_max lat_min lat_max r =
     (case (cell_at cols r ''lon'', cell_at cols r ''lat'') of
        (Num x, Num y) \<Rightarrow>
          of_int lon_min \<le> x \<and> x \<le> of_int lon_max \<and> of_int lat_min \<le> y \<and> y \<le> of_int lat_max
      | _ \<Rightarrow> False)"

fun numeric_or_null :: "cell \<Rightarrow> bool" where
  "numeric_or_null (Num x) = True"
| "numeric_or_null Null = True"
| "numeric_or_null (Txt s) = False"
| "numeric_or_null (Stamp t) = False"

section \<open>The environment of a request\<close>

text \<open>
  What a request reads from outside the program: the UTC clock, the live data service,
  the bundled CSV file and the oracle's reply to a query text; and the library functions
  whose results are taken as given: the parsing of a non-timestamp cell as a time
  (\<open>pd.to_datetime\<close>), of a string as a float (\<open>float\<close>), the formatting of a float
  with two decimals (\<open>None\<close> stands for NaN), and \<open>json.loads\<close> on a text that begins
  with a brace, which returns a dictionary or raises (\<open>None\<close>).

  The live source is the outcome of lines 43 to 72 of \<open>fetch_argo_data\<close>: the library
  is absent, or the fetch or the normalisation raises, or they produce a table. The CSV
  file is absent, or \<open>pd.read_csv(demo, parse_dates=["time"])\<close> raises, or it returns
  a table.
\<close>

datatype live_source = NoArgopy | LiveFails | LiveTable dataframe

datatype csv_file = Missing | Unreadable | Csv dataframe

datatype oracle_state = NoClient | CallFails | Reply string

record env =
  now :: stamp
  live :: live_source
  demo :: csv_file
  oracle_reply :: "string \<Rightarrow> oracle_state"
  parse_time :: "cell \<Rightarrow> stamp option"
  to_float :: "string \<Rightarrow> rat option"
  fmt2 :: "rat option \<Rightarrow> string"
  json_loads :: "string \<Rightarrow> pydict option"

section \<open>argo/utils.py: the time window and the fallback chain\<close>

text \<open>
  \<open>pd.to_datetime(series)\<close>: a timestamp and a missing value stay, any other cell is
  parsed; a cell that does not parse raises, or becomes missing under
  \<open>errors="coerce"\<close>.
\<close>

definition to_datetime :: "env \<Rightarrow> cell \<Rightarrow> error + cell" where
  "to_datetime E c =
     (case c of
        Null \<Rightarrow> Inr Null
      | Stamp t \<Rightarrow> Inr (Stamp t)
      | _ \<Rightarrow> (case parse_time E c of Some t \<Rightarrow> Inr (Stamp t) | None \<Rightarrow> Inl ValueError))"

definition to_datetime_coerce :: "env \<Rightarrow> cell \<Rightarrow> cell" where
  "to_datetime_coerce E c =
     (case c of
        Null \<Rightarrow> Null
      | Stamp t \<Rightarrow> Stamp t
      | _ \<Rightarrow> (case parse_time E c of Some t \<Rightarrow> Stamp t | None \<Rightarrow> Null))"

text \<open>\<open>series >= start\<close> on parsed times: a missing time compares false.\<close>

fun on_or_after :: "stamp \<Rightarrow> cell \<Rightarrow> bool" where
  "on_or_after start (Stamp t) = (start \<le> t)"
| "on_or_after start c = False"

text \<open>
  Lines 19 to 22: \<open>period_unit.startswith("year")\<close> needs a string, the offset an
  integer count.
\<close>

definition window_start :: "stamp \<Rightarrow> pyval \<Rightarrow> pyval \<Rightarrow> error + stamp" where
  "window_start t period_num period_unit =
     (case period_unit of
        PStr u \<Rightarrow>
          (case period_num of
             PInt n \<Rightarrow> Inr (if prefix ''year'' u then minus_years t n else minus_months t n)
           | _ \<Rightarrow> Inl TypeError)
      | _ \<Rightarrow> Inl AttributeError)"

text \<open>The bounding box as the caller stores it in the parameters: a list of integers.\<close>

fun as_int :: "pyval \<Rightarrow> int option" where
  "as_int (PInt n) = Some n"
| "as_int v = None"

fun as_ints :: "pyval \<Rightarrow> int list option" where
  "as_ints (PList xs) =
     (if list_all (\<lambda>v. as_int v \<noteq> None) xs then Some (map (\<lambda>v. the (as_int v)) xs) else None)"
| "as_ints v = None"

text \<open>
  \<open>_filter_by_bbox_and_time(df, bbox, period_num, period_unit)\<close>, lines 13 to 25: the
  box first, then, when both period values are truthy and the table has a \<open>time\<close>
  column, the rows whose time is not before \<open>now - period\<close>.
\<close>

definition filter_by_bbox_and_time ::
  "env \<Rightarrow> dataframe \<Rightarrow> pyval \<Rightarrow> pyval \<Rightarrow> pyval \<Rightarrow> error + dataframe" where
  "filter_by_bbox_and_time E df bbox period_num period_unit =
     (case as_ints bbox of
        None \<Rightarrow> Inl TypeError
      | Some box \<Rightarrow>
          and_then (bbox_filter df box) (\<lambda>df1.
            if truthy period_unit \<and> truthy period_num then
              and_then (window_start (now E) period_num period_unit) (\<lambda>start.
                if ''time'' \<in> set (columns df1) then
                  and_then (collect (map (to_datetime E) (col_values df1 ''time''))) (\<lambda>ts.
                    Inr (select df1 (map (on_or_after start) ts)))
                else Inr df1)
            else Inr df1))"

text \<open>Lines 84 to 87: the \<open>lon\<close> and \<open>lat\<close> columns from their long names.\<close>

definition alias_column :: "dataframe \<Rightarrow> string \<Rightarrow> string \<Rightarrow> dataframe" where
  "alias_column df short long =
     (if short \<notin> set (columns df) \<and> long \<in> set (columns df)
      then assign df short (col_values df long) else df)"

text \<open>Lines 33 to 36: the parameters read, with their defaults.\<close>

definition param_bbox :: "pydict \<Rightarrow> pyval" where
  "param_bbox params = dict_get params ''bbox'' (PList [PInt (- 180), PInt 180, PInt (- 90), PInt 90])"

definition param_period_num :: "pydict \<Rightarrow> pyval" where
  "param_period_num params = dict_get params ''period_num'' (dict_get params ''years'' (PInt 5))"

definition param_period_unit :: "pydict \<Rightarrow> pyval" where
  "param_period_unit params = dict_get params ''period_unit'' (PStr ''years'')"

text \<open>
  Lines 39 to 76, the live tier: its table is filtered and returned; an exception anywhere
  in the \<open>try\<close>, the filter included, falls through to the CSV.
\<close>

definition live_tier :: "env \<Rightarrow> pydict \<Rightarrow> dataframe option" where
  "live_tier E params =
     (case live E of
        LiveTable df \<Rightarrow>
          (case filter_by_bbox_and_time E df (param_bbox params) (param_period_num params)
                  (param_period_unit params) of
             Inr r \<Rightarrow> Some r
           | Inl e \<Rightarrow> None)
      | _ \<Rightarrow> None)"

text \<open>
  Lines 78 to 91, the static tier: outside any \<open>try\<close>, so an exception of the read or of
  the filter leaves \<open>fetch_argo_data\<close>.
\<close>

definition static_tier :: "env \<Rightarrow> pydict \<Rightarrow> error + dataframe" where
  "static_tier E params =
     (case demo E of
        Missing \<Rightarrow> Inr DataFrame
      | Unreadable \<Rightarrow> Inl IOError
      | Csv df \<Rightarrow>
          filter_by_bbox_and_time E
            (alias_column (alias_column df ''lon'' ''longitude'') ''lat'' ''latitude'')
            (param_bbox params) (param_period_num params) (param_period_unit params))"

definition fetch_argo_data :: "env \<Rightarrow> pydict \<Rightarrow> error + dataframe" where
  "fetch_argo_data E params =
     (case live_tier E params of Some df \<Rightarrow> Inr df | None \<Rightarrow> static_tier E params)"

section \<open>Python strings\<close>

text \<open>
  A query text is a list of characters with code points below 256. In that range
  \<open>str.lower\<close> moves \<open>A\<close> to \<open>Z\<close> and the capital letters of Latin-1 (192 to 222, the
  multiplication sign 215 apart) up by 32; the digit class of a pattern matches the ten ASCII digits only;
  the white-space class and \<open>str.strip\<close> take the code points 9 to 13, 28 to 32, 133 and 160 as
  white space.
\<close>

definition lower_char :: "char \<Rightarrow> char" where
  "lower_char c =
     (let n = (of_char c :: nat)
      in if (65 \<le> n \<and> n \<le> 90) \<or> (192 \<le> n \<and> n \<le> 222 \<and> n \<noteq> 215)
         then char_of (n + 32) else c)"

definition lower :: "string \<Rightarrow> string" where
  "lower s = map lower_char s"

definition is_digit :: "char \<Rightarrow> bool" where
  "is_digit c = (c \<in> set ''0123456789'')"

definition is_space :: "char \<Rightarrow> bool" where
  "is_space c =
     (let n = (of_char c :: nat)
      in (9 \<le> n \<and> n \<le> 13) \<or> (28 \<le> n \<and> n \<le> 32) \<or> n = 133 \<or> n = 160)"

definition strip :: "string \<Rightarrow> string" where
  "strip s = rev (dropWhile is_space (rev (dropWhile is_space s)))"

text \<open>\<open>sub in s\<close>: the text \<open>sub\<close> occurs in \<open>s\<close> at some position.\<close>

fun contains :: "string \<Rightarrow> string \<Rightarrow> bool" where
  "contains sub [] = (sub = [])"
| "contains sub (c # cs) = (prefix sub (c # cs) \<or> contains sub cs)"

text \<open>
  \<open>int(digits)\<close> on a run of ASCII digits. Python's integers are unbounded; the limit
  that recent interpreters put on the number of digits of such a text is not modelled.
\<close>

definition digit_value :: "char \<Rightarrow> int" where
  "digit_value c = int (of_char c) - 48"

definition int_of_digits :: "string \<Rightarrow> int" where
  "int_of_digits ds = foldl (\<lambda>acc c. 10 * acc + digit_value c) 0 ds"

section \<open>chat/views.py: the two regular expressions of the heuristic parser\<close>

text \<open>
  The pattern \<open>last (D+) (year|years|month|months)\<close>, with \<open>D\<close> the digit class, tried at the start of a text. The digit run
  is greedy, and giving digits back cannot help, since the character after a shorter run
  is a digit and not the blank the pattern needs. The alternatives are tried in their
  order, so \<open>year\<close> wins over \<open>years\<close> and \<open>month\<close> over \<open>months\<close>: nothing follows
  the group that could force the longer one. The result is the two groups.
\<close>

definition match_last_at :: "string \<Rightarrow> (string \<times> string) option" where
  "match_last_at s =
     (if prefix ''last '' s then
        (let r = drop 5 s; ds = takeWhile is_digit r; r2 = dropWhile is_digit r
         in if ds \<noteq> [] \<and> prefix '' '' r2 then
              (let r3 = drop 1 r2
               in if prefix ''year'' r3 then Some (ds, ''year'')
                  else if prefix ''years'' r3 then Some (ds, ''years'')
                  else if prefix ''month'' r3 then Some (ds, ''month'')
                  else if prefix ''months'' r3 then Some (ds, ''months'')
                  else None)
            else None)
      else None)"

text \<open>\<open>re.search\<close>: the match at the leftmost position that has one.\<close>

fun search_last :: "string \<Rightarrow> (string \<times> string) option" where
  "search_last [] = match_last_at []"
| "search_last (c # cs) =
     (case match_last_at (c # cs) of Some m \<Rightarrow> Some m | None \<Rightarrow> search_last cs)"

text \<open>
  The pattern \<open>(D{4})S*[-to]+S*(D{4})\<close>, with \<open>D\<close> the digit class and \<open>S\<close> the white-space class, tried at the start of a text: four digits, white
  space, a non-empty run of the characters \<open>-\<close>, \<open>t\<close>, \<open>o\<close>, white space, four digits.
  The three classes are disjoint, so each greedy run is forced and giving characters back
  cannot help.
\<close>

definition four_digits :: "string \<Rightarrow> bool" where
  "four_digits s = (length (take 4 s) = 4 \<and> list_all is_digit (take 4 s))"

definition is_sep :: "char \<Rightarrow> bool" where
  "is_sep c = (c \<in> set ''-to'')"

definition match_years_at :: "string \<Rightarrow> (string \<times> string) option" where
  "match_years_at s =
     (if four_digits s then
        (let r1 = dropWhile is_space (drop 4 s);
             sep = takeWhile is_sep r1;
             r2 = dropWhile is_space (dropWhile is_sep r1)
         in if sep \<noteq> [] \<and> four_digits r2 then Some (take 4 s, take 4 r2) else None)
      else None)"

fun search_years :: "string \<Rightarrow> (string \<times> string) option" where
  "search_years [] = match_years_at []"
| "search_years (c # cs) =
     (case match_years_at (c # cs) of Some m \<Rightarrow> Some m | None \<Rightarrow> search_years cs)"

section \<open>chat/views.py: the heuristic parser\<close>

text \<open>The region presets, in the order the dictionary literal lists them.\<close>

definition REGION_PRESETS :: "(string \<times> int list) list" where
  "REGION_PRESETS =
     [(''pacific'', [- 180, 180, - 60, 60]),
      (''indian ocean'', [20, 120, - 40, 30]),
      (''near india'', [68, 98, 6, 30]),
      (''arabian sea'', [52, 68, 5, 24])]"

text \<open>Lines 28 to 33, the defaults.\<close>

definition default_params :: pydict where
  "default_params =
     [(''variables'', PList [PStr ''temperature'']),
      (''region'', PStr ''pacific''),
      (''years'', PInt 5),
      (''query_type'', PStr ''trend'')]"

text \<open>Lines 36 to 42, the variables.\<close>

definition detect_variables :: "string \<Rightarrow> pydict \<Rightarrow> pydict" where
  "detect_variables ql params =
     (let p1 = (if contains ''salin'' ql
                then dict_set params ''variables'' (PList [PStr ''salinity'']) else params);
          p2 = (if contains ''current'' ql
                then dict_set p1 ''variables'' (PList [PStr ''current'']) else p1)
      in if contains ''compare'' ql \<or> (contains ''temperature'' ql \<and> contains ''salinity'' ql)
         then dict_set (dict_set p2 ''variables'' (PList [PStr ''temperature'', PStr ''salinity'']))
                ''query_type'' (PStr ''comparison'')
         else p2)"

text \<open>Lines 45 to 48, the first preset whose name occurs in the text.\<close>

definition detect_region :: "string \<Rightarrow> pydict \<Rightarrow> pydict" where
  "detect_region ql params =
     (case find (\<lambda>name. contains name ql) (map fst REGION_PRESETS) of
        Some name \<Rightarrow> dict_set params ''region'' (PStr name)
      | None \<Rightarrow> params)"

text \<open>Lines 51 to 54, the query type.\<close>

definition detect_query_type :: "string \<Rightarrow> pydict \<Rightarrow> pydict" where
  "detect_query_type ql params =
     (if contains ''map'' ql \<or> contains ''location'' ql
      then dict_set params ''query_type'' (PStr ''map'')
      else if contains ''summary'' ql \<or> contains ''average'' ql
      then dict_set params ''query_type'' (PStr ''summary'')
      else params)"

text \<open>
  Lines 58 to 69, the time horizon: the absolute pattern is searched in the \<open>else\<close>
  branch of the relative one.
\<close>

definition detect_time :: "string \<Rightarrow> pydict \<Rightarrow> pydict" where
  "detect_time ql params =
     (case search_last ql of
        Some (num, unit) \<Rightarrow>
          dict_set (dict_set params ''period_num'' (PInt (int_of_digits num)))
            ''period_unit'' (PStr unit)
      | None \<Rightarrow>
          (case search_years ql of
             Some (y1, y2) \<Rightarrow>
               dict_set (dict_set params ''start_year'' (PInt (int_of_digits y1)))
                 ''end_year'' (PInt (int_of_digits y2))
           | None \<Rightarrow> params))"

definition parse_query_offline :: "string \<Rightarrow> pydict" where
  "parse_query_offline q =
     (let ql = lower q
      in detect_time ql (detect_query_type ql (detect_region ql (detect_variables ql default_params))))"

section \<open>chat/views.py: the oracle parser and the choice between the two\<close>

text \<open>
  The search for an opening brace, any characters (line breaks too), and a closing brace: from the first opening brace to the last closing
  brace after it; no match when there is none.
\<close>

definition search_braces :: "string \<Rightarrow> string option" where
  "search_braces txt =
     (let from_open = dropWhile (\<lambda>c. c \<noteq> CHR ''{'') txt;
          m = rev (dropWhile (\<lambda>c. c \<noteq> CHR ''}'') (rev from_open))
      in if from_open = [] \<or> m = [] then None else Some m)"

text \<open>
  \<open>parse_query_with_openai\<close>, lines 73 to 98: \<open>None\<close> when the client is absent, when
  the call or the decoding raises, and when the reply has no brace pair; else whatever
  object the reply decodes to.
\<close>

definition parse_query_with_openai :: "env \<Rightarrow> string \<Rightarrow> pydict option" where
  "parse_query_with_openai E q =
     (case oracle_reply E q of
        NoClient \<Rightarrow> None
      | CallFails \<Rightarrow> None
      | Reply text \<Rightarrow>
          (case search_braces (strip text) of
             None \<Rightarrow> None
           | Some m \<Rightarrow> json_loads E m))"

text \<open>Line 110: \<open>parse_query_with_openai(q) or parse_query_offline(q)\<close>.\<close>

definition interpret_query :: "env \<Rightarrow> string \<Rightarrow> pydict" where
  "interpret_query E q =
     (case parse_query_with_openai E q of
        Some j \<Rightarrow> if truthy (PDict j) then j else parse_query_offline q
      | None \<Rightarrow> parse_query_offline q)"

section \<open>visualization/utils.py\<close>

text \<open>
  The markup a renderer returns: a literal text, or a figure given by what it draws. A
  line chart draws one variable against time; a comparison chart one trace for each
  variable; the map script carries its features and the centre of the view. The HTML that
  the charting library makes of a figure is not modelled.
\<close>

record feature =
  float_id :: cell
  time_prop :: "cell option"
  temperature_prop :: "rat option"
  salinity_prop :: "rat option"
  lon_coord :: rat
  lat_coord :: rat

datatype fragment =
    Markup string
  | LineChart string "(cell \<times> cell) list"
  | ComparisonChart "(string \<times> (cell \<times> cell) list) list"
  | LeafletMap "feature list" rat rat

text \<open>
  \<open>name in df.columns\<close> for a parameter value: a string is looked up, an integer or
  \<open>None\<close> is not a column, a list or dictionary is unhashable.
\<close>

fun in_columns :: "dataframe \<Rightarrow> pyval \<Rightarrow> error + bool" where
  "in_columns df (PStr s) = Inr (s \<in> set (columns df))"
| "in_columns df (PInt n) = Inr False"
| "in_columns df PNone = Inr False"
| "in_columns df (PList xs) = Inl TypeError"
| "in_columns df (PDict d) = Inl TypeError"

fun column_name :: "pyval \<Rightarrow> string" where
  "column_name (PStr s) = s"
| "column_name v = []"

text \<open>\<open>df.dropna(subset=cols)\<close>: the rows with no missing value under the named columns.\<close>

definition dropna :: "dataframe \<Rightarrow> string list \<Rightarrow> dataframe" where
  "dropna df cols =
     df\<lparr>rows := filter (\<lambda>r. list_all (\<lambda>c. cell_at (columns df) r c \<noteq> Null) cols) (rows df)\<rparr>"

text \<open>
  \<open>sort_values("time")\<close> on rows whose time is a timestamp; rows of equal time keep
  their order here.
\<close>

fun stamp_key :: "cell \<Rightarrow> stamp" where
  "stamp_key (Stamp t) = t"
| "stamp_key c = (0, 0, 0, 0)"

definition sort_by_time :: "dataframe \<Rightarrow> dataframe" where
  "sort_by_time df = df\<lparr>rows := sort_key (\<lambda>r. stamp_key (cell_at (columns df) r ''time'')) (rows df)\<rparr>"

text \<open>\<open>df.reset_index()\<close>: the row numbers become a first column.\<close>

definition reset_index :: "dataframe \<Rightarrow> dataframe" where
  "reset_index df =
     \<lparr>columns = (if ''index'' \<in> set (columns df) then ''level_0'' else ''index'') # columns df,
      rows = map (\<lambda>(i, r). Num (of_nat i) # r) (zip [0 ..< length (rows df)] (rows df))\<rparr>"

text \<open>The assignment \<open>df["time"] = pd.to_datetime(df["time"], errors="coerce")\<close>.\<close>

definition coerce_time :: "env \<Rightarrow> dataframe \<Rightarrow> dataframe" where
  "coerce_time E df = assign df ''time'' (map (to_datetime_coerce E) (col_values df ''time''))"

definition points :: "dataframe \<Rightarrow> string \<Rightarrow> (cell \<times> cell) list" where
  "points ts v = zip (col_values ts ''time'') (col_values ts v)"

text \<open>
  \<open>make_plot(df, variable)\<close>. The table is the caller's object, so the assignment of
  line 15 is seen by the caller: the result carries the table as the call leaves it.
  Without a \<open>time\<close> column the figure is asked to plot a column that \<open>ts\<close> does not
  have, which raises.
\<close>

definition make_plot :: "env \<Rightarrow> dataframe \<Rightarrow> pyval \<Rightarrow> error + (fragment \<times> dataframe)" where
  "make_plot E df variable =
     (if df_empty df
      then Inr (Markup ''<div><em>No timeseries data available for plotting.</em></div>'', df)
      else and_then (in_columns df variable) (\<lambda>present.
        if \<not> present
        then Inr (Markup ''<div><em>No timeseries data available for plotting.</em></div>'', df)
        else
          (let v = column_name variable;
               df' = (if ''time'' \<in> set (columns df) then coerce_time E df else df);
               ts = (if ''time'' \<in> set (columns df)
                     then sort_by_time (dropna df' [''time'', v]) else reset_index df)
           in if df_empty ts then Inr (Markup ''<div><em>No valid data to plot.</em></div>'', df')
              else if ''time'' \<in> set (columns ts) then Inr (LineChart v (points ts v), df')
              else Inl ValueError)))"

text \<open>\<open>make_comparison_plot(df)\<close> with its default variables.\<close>

definition trace :: "dataframe \<Rightarrow> string \<Rightarrow> (string \<times> (cell \<times> cell) list) list" where
  "trace ts var =
     (if var \<in> set (columns ts) \<and> \<not> df_empty (dropna ts [var])
      then [(var, points (dropna ts [var]) var)] else [])"

definition make_comparison_plot :: "env \<Rightarrow> dataframe \<Rightarrow> fragment \<times> dataframe" where
  "make_comparison_plot E df =
     (if df_empty df
      then (Markup ''<div><em>No data available for comparison plot.</em></div>'', df)
      else if ''time'' \<notin> set (columns df)
      then (Markup ''<div><em>No time column found for plotting.</em></div>'', df)
      else
        (let df' = coerce_time E df;
             ts = sort_by_time (dropna df' [''time'']);
             traces = trace ts ''temperature'' @ trace ts ''salinity''
         in if traces = []
            then (Markup ''<div><em>Requested variables not found in dataset.</em></div>'', df')
            else (ComparisonChart traces, df')))"

text \<open>
  \<open>float(x)\<close> on a cell: a number converts, a string converts when it parses, a
  timestamp does not. The two exceptions are kept apart. A missing value never reaches a
  conversion: the rows are taken after \<open>dropna\<close>, and the optional values after
  \<open>pd.notna\<close>.
\<close>

definition py_float :: "env \<Rightarrow> cell \<Rightarrow> error + rat" where
  "py_float E c =
     (case c of
        Num x \<Rightarrow> Inr x
      | Txt s \<Rightarrow> (case to_float E s of Some x \<Rightarrow> Inr x | None \<Rightarrow> Inl ValueError)
      | Stamp t \<Rightarrow> Inl TypeError
      | Null \<Rightarrow> Inl TypeError)"

text \<open>
  Lines 117 to 120: \<open>"temperature" in row and pd.notna(row["temperature"])\<close>, then a
  conversion outside any \<open>try\<close>.
\<close>

definition optional_float :: "env \<Rightarrow> string list \<Rightarrow> cell list \<Rightarrow> string \<Rightarrow> error + rat option" where
  "optional_float E cols r c =
     (if c \<in> set cols \<and> cell_at cols r c \<noteq> Null
      then and_then (py_float E (cell_at cols r c)) (\<lambda>x. Inr (Some x))
      else Inr None)"

text \<open>
  One turn of the loop of lines 108 to 125: no feature when a coordinate does not convert
  (the \<open>continue\<close>), an exception when a present temperature or salinity does not.
\<close>

definition row_feature :: "env \<Rightarrow> string list \<Rightarrow> cell list \<Rightarrow> error + feature option" where
  "row_feature E cols r =
     (case py_float E (cell_at cols r ''lat'') of
        Inl e \<Rightarrow> Inr None
      | Inr lat \<Rightarrow>
          (case py_float E (cell_at cols r ''lon'') of
             Inl e \<Rightarrow> Inr None
           | Inr lon \<Rightarrow>
               and_then (optional_float E cols r ''temperature'') (\<lambda>t.
               and_then (optional_float E cols r ''salinity'') (\<lambda>s.
                 Inr (Some \<lparr>float_id = (if ''float_id'' \<in> set cols then cell_at cols r ''float_id''
                                       else Txt []),
                           time_prop = (if ''time'' \<in> set cols \<and> cell_at cols r ''time'' \<noteq> Null
                                        then Some (cell_at cols r ''time'') else None),
                           temperature_prop = t, salinity_prop = s,
                           lon_coord = lon, lat_coord = lat\<rparr>)))))"

fun features_of :: "env \<Rightarrow> string list \<Rightarrow> cell list list \<Rightarrow> error + feature list" where
  "features_of E cols [] = Inr []"
| "features_of E cols (r # rs) =
     and_then (row_feature E cols r) (\<lambda>f.
     and_then (features_of E cols rs) (\<lambda>fs.
       Inr (case f of None \<Rightarrow> fs | Some x \<Rightarrow> x # fs)))"

text \<open>\<open>xs or [0]\<close> and \<open>sum(xs) / len(xs)\<close>, the division raising on an empty list.\<close>

definition or_zero :: "rat list \<Rightarrow> rat list" where
  "or_zero xs = (if xs = [] then [0] else xs)"

definition average :: "rat list \<Rightarrow> error + rat" where
  "average xs =
     (if length xs = 0 then Inl ZeroDivisionError else Inr (sum_list xs / of_nat (length xs)))"

definition make_map :: "env \<Rightarrow> dataframe \<Rightarrow> error + fragment" where
  "make_map E df =
     (if df_empty df
      then Inr (Markup ''<div><em>No float location data available for map.</em></div>'')
      else if \<not> (''lat'' \<in> set (columns df) \<and> ''lon'' \<in> set (columns df)) then Inl KeyError
      else
        and_then (features_of E (columns df) (rows (dropna df [''lat'', ''lon'']))) (\<lambda>features.
        and_then (average (or_zero (map lat_coord features))) (\<lambda>center_lat.
        and_then (average (or_zero (map lon_coord features))) (\<lambda>center_lon.
          Inr (LeafletMap features center_lat center_lon)))))"

section \<open>chat/views.py: from the parameters to the table\<close>

text \<open>
  Lines 113 to 115: the region name is looked up in the presets, \<open>pacific\<close> when it is
  absent or unknown; a list or dictionary as the name is unhashable.
\<close>

definition preset_box :: "string \<Rightarrow> pyval" where
  "preset_box name =
     PList (map PInt (case map_of REGION_PRESETS name of
                        Some b \<Rightarrow> b
                      | None \<Rightarrow> [- 180, 180, - 60, 60]))"

definition resolve_region :: "pydict \<Rightarrow> error + pydict" where
  "resolve_region params =
     (case dict_get params ''region'' (PStr ''pacific'') of
        PStr name \<Rightarrow> Inr (dict_set params ''bbox'' (preset_box name))
      | PInt n \<Rightarrow> Inr (dict_set params ''bbox'' (preset_box ''pacific''))
      | PNone \<Rightarrow> Inr (dict_set params ''bbox'' (preset_box ''pacific''))
      | PList xs \<Rightarrow> Inl TypeError
      | PDict d \<Rightarrow> Inl TypeError)"

text \<open>Lines 118 to 121: any exception of the fetch gives the empty table.\<close>

definition fetched :: "env \<Rightarrow> pydict \<Rightarrow> dataframe" where
  "fetched E params = (case fetch_argo_data E params of Inr df \<Rightarrow> df | Inl e \<Rightarrow> DataFrame)"

text \<open>
  Lines 124 to 129: when the fetched table is empty the CSV is read again, as it is; an
  exception of the read gives the empty table.
\<close>

definition reload_if_empty :: "env \<Rightarrow> dataframe \<Rightarrow> dataframe" where
  "reload_if_empty E df =
     (if df_empty df then (case demo E of Csv d \<Rightarrow> d | _ \<Rightarrow> DataFrame) else df)"

text \<open>
  Lines 132 to 137. Iterating a parameter value: the elements of a list, the characters
  of a string, the keys of a dictionary; an integer or \<open>None\<close> is not iterable.
\<close>

fun iterate :: "pyval \<Rightarrow> error + pyval list" where
  "iterate (PList xs) = Inr xs"
| "iterate (PStr s) = Inr (map (\<lambda>c. PStr [c]) s)"
| "iterate (PDict d) = Inr (map (\<lambda>kv. PStr (fst kv)) d)"
| "iterate (PInt n) = Inl TypeError"
| "iterate PNone = Inl TypeError"

definition ensure_column :: "dataframe \<Rightarrow> pyval \<Rightarrow> error + dataframe" where
  "ensure_column df v =
     and_then (in_columns df v) (\<lambda>present.
       if \<not> present then
         (if v = PStr ''temperature'' \<and> ''temp'' \<in> set (columns df)
          then Inr (assign df ''temperature'' (col_values df ''temp''))
          else if v = PStr ''salinity'' \<and> ''sal'' \<in> set (columns df)
          then Inr (assign df ''salinity'' (col_values df ''sal''))
          else Inr df)
       else Inr df)"

fun ensure_columns :: "dataframe \<Rightarrow> pyval list \<Rightarrow> error + dataframe" where
  "ensure_columns df [] = Inr df"
| "ensure_columns df (v # vs) = and_then (ensure_column df v) (\<lambda>df'. ensure_columns df' vs)"

text \<open>
  Lines 117 to 137 together: the table that reaches the response building of line 140.
\<close>

definition resolved_table :: "env \<Rightarrow> pydict \<Rightarrow> error + dataframe" where
  "resolved_table E params =
     and_then (iterate (dict_get params ''variables'' (PList []))) (\<lambda>vs.
       ensure_columns (reload_if_empty E (fetched E params)) vs)"

section \<open>chat/views.py: the response\<close>

text \<open>\<open>str(n)\<close> for a row count.\<close>

function show_nat :: "nat \<Rightarrow> string" where
  "show_nat n =
     (if n < 10 then [char_of (48 + n)] else show_nat (n div 10) @ [char_of (48 + n mod 10)])"
  by pat_completeness auto
termination
  by (relation "measure id") auto

declare show_nat.simps [simp del]

text \<open>
  \<open>len(x)\<close>, \<open>x[0]\<close> and \<open>', '.join(x)\<close> on a parameter value. A dictionary has string
  keys, so the key \<open>0\<close> is absent.
\<close>

fun py_len :: "pyval \<Rightarrow> error + nat" where
  "py_len (PList xs) = Inr (length xs)"
| "py_len (PStr s) = Inr (length s)"
| "py_len (PDict d) = Inr (length d)"
| "py_len (PInt n) = Inl TypeError"
| "py_len PNone = Inl TypeError"

fun first_item :: "pyval \<Rightarrow> error + pyval" where
  "first_item (PList []) = Inl IndexError"
| "first_item (PList (x # xs)) = Inr x"
| "first_item (PStr []) = Inl IndexError"
| "first_item (PStr (c # cs)) = Inr (PStr [c])"
| "first_item (PDict d) = Inl KeyError"
| "first_item (PInt n) = Inl TypeError"
| "first_item PNone = Inl TypeError"

fun as_str :: "pyval \<Rightarrow> error + string" where
  "as_str (PStr s) = Inr s"
| "as_str v = Inl TypeError"

fun join_comma :: "string list \<Rightarrow> string" where
  "join_comma [] = []"
| "join_comma [s] = s"
| "join_comma (s # t # ts) = s @ '', '' @ join_comma (t # ts)"

definition py_join :: "pyval \<Rightarrow> error + string" where
  "py_join v =
     and_then (iterate v) (\<lambda>xs.
     and_then (collect (map as_str xs)) (\<lambda>ss. Inr (join_comma ss)))"

text \<open>
  \<open>df[v].mean()\<close>: the mean of the values that are present, NaN (here \<open>None\<close>) when
  there is none; a column that holds a string or a timestamp has no float mean.
\<close>

fun num_values :: "cell list \<Rightarrow> rat list" where
  "num_values [] = []"
| "num_values (Num x # cs) = x # num_values cs"
| "num_values (c # cs) = num_values cs"

definition column_mean :: "dataframe \<Rightarrow> string \<Rightarrow> error + rat option" where
  "column_mean df v =
     (if list_all numeric_or_null (col_values df v)
      then (let xs = num_values (col_values df v)
            in Inr (if xs = [] then None else Some (sum_list xs / of_nat (length xs))))
      else Inl TypeError)"

record response =
  summary :: string
  plot_html :: fragment
  map_html :: fragment

text \<open>
  Lines 153 to 156, and again 159 to 162: the summary of the first variable, left at the
  no-data message when the table has no such column.
\<close>

definition no_data :: string where
  "no_data = ''No data found for the requested region/time.''"

definition average_summary :: "env \<Rightarrow> dataframe \<Rightarrow> pyval \<Rightarrow> error + string" where
  "average_summary E df v =
     and_then (in_columns df v) (\<lambda>present.
       if present then
         and_then (column_mean df (column_name v)) (\<lambda>meanv.
           Inr (''Average '' @ column_name v @ '': '' @ fmt2 E meanv @ '' (from ''
                @ show_nat (len df) @ '' data points).''))
       else Inr no_data)"

text \<open>
  Lines 140 to 164, the response building: the response, and the table as the renderers
  leave it.
\<close>

definition build :: "env \<Rightarrow> dataframe \<Rightarrow> pydict \<Rightarrow> error + (response \<times> dataframe)" where
  "build E df params =
     (if df_empty df
      then Inr (\<lparr>summary = no_data, plot_html = Markup [], map_html = Markup []\<rparr>, df)
      else
        and_then (dict_item params ''query_type'') (\<lambda>qt.
        and_then (if qt = PStr ''comparison''
                  then and_then (dict_item params ''variables'') (\<lambda>vs.
                       and_then (py_len vs) (\<lambda>n. Inr (1 < n)))
                  else Inr False) (\<lambda>comparison.
          if comparison then
            and_then (dict_item params ''variables'') (\<lambda>vs.
            and_then (py_join vs) (\<lambda>names.
              (case make_comparison_plot E df of
                 (plot, df') \<Rightarrow>
                   Inr (\<lparr>summary = ''Comparison of '' @ names @ ''.'', plot_html = plot,
                         map_html = Markup []\<rparr>, df'))))
          else if qt = PStr ''map'' then
            and_then (make_map E df) (\<lambda>m.
              Inr (\<lparr>summary = ''Showing float locations on the map.'', plot_html = Markup [],
                    map_html = m\<rparr>, df))
          else if qt = PStr ''summary'' then
            and_then (dict_item params ''variables'') (\<lambda>vs.
            and_then (first_item vs) (\<lambda>v.
            and_then (average_summary E df v) (\<lambda>text.
              Inr (\<lparr>summary = text, plot_html = Markup [], map_html = Markup []\<rparr>, df))))
          else
            and_then (dict_item params ''variables'') (\<lambda>vs.
            and_then (first_item vs) (\<lambda>v.
            and_then (average_summary E df v) (\<lambda>text.
            and_then (make_plot E df v) (\<lambda>(plot, df').
            and_then (make_map E df') (\<lambda>m.
              Inr (\<lparr>summary = text, plot_html = plot, map_html = m\<rparr>, df')))))))))"

text \<open>
  Lines 110 to 164 for a query text: interpretation, region, table, response. The query
  log and the rendering of the page (lines 106, 107 and 166 to 181) are not modelled.
\<close>

definition answer :: "env \<Rightarrow> string \<Rightarrow> error + (response \<times> dataframe)" where
  "answer E q =
     and_then (resolve_region (interpret_query E q)) (\<lambda>params.
     and_then (resolved_table E params) (\<lambda>df. build E df params))"

section \<open>What the specification asks of a parameter set\<close>

text \<open>
  A usable parameter set, in the specification's words: a non-empty list under
  \<open>variables\<close> and, under \<open>query_type\<close>, one of the four types.
\<close>

definition query_types :: "string list" where
  "query_types = [''trend'', ''map'', ''summary'', ''comparison'']"


text \<open>
  The schema that the prompt of lines 77 to 82 declares: a list of strings under
  \<open>variables\<close>, a string under \<open>region\<close>, one of the four types under \<open>query_type\<close>,
  and integers or strings under the optional keys when they are present.
\<close>

fun is_str :: "pyval \<Rightarrow> bool" where
  "is_str (PStr s) = True"
| "is_str v = False"

fun is_int :: "pyval \<Rightarrow> bool" where
  "is_int (PInt n) = True"
| "is_int v = False"

definition optional_key :: "pydict \<Rightarrow> string \<Rightarrow> (pyval \<Rightarrow> bool) \<Rightarrow> bool" where
  "optional_key j k ok = (case map_of j k of None \<Rightarrow> True | Some v \<Rightarrow> ok v)"

definition matches_schema :: "pydict \<Rightarrow> bool" where
  "matches_schema j =
     ((case map_of j ''variables'' of Some (PList vs) \<Rightarrow> list_all is_str vs | _ \<Rightarrow> False) \<and>
      (case map_of j ''region'' of Some (PStr r) \<Rightarrow> True | _ \<Rightarrow> False) \<and>
      (case map_of j ''query_type'' of Some (PStr t) \<Rightarrow> t \<in> set query_types | _ \<Rightarrow> False) \<and>
      optional_key j ''period_num'' is_int \<and> optional_key j ''period_unit'' is_str \<and>
      optional_key j ''start_year'' is_int \<and> optional_key j ''end_year'' is_int)"

text \<open>Line 110: the oracle's result is adopted when it is a truthy value.\<close>

definition adopted :: "env \<Rightarrow> string \<Rightarrow> bool" where
  "adopted E q = (case parse_query_with_openai E q of Some j \<Rightarrow> truthy (PDict j) | None \<Rightarrow> False)"

section \<open>Sample environments and tables\<close>

text \<open>An environment with no oracle, no live source and no CSV file.\<close>

definition bare_env :: env where
  "bare_env =
     \<lparr>now = (2025, 6, 15, 0), live = NoArgopy, demo = Missing,
      oracle_reply = (\<lambda>q. NoClient), parse_time = (\<lambda>c. None), to_float = (\<lambda>s. None),
      fmt2 = (\<lambda>m. ''#.##''), json_loads = (\<lambda>s. None)\<rparr>"

text \<open>An oracle that answers with an object of one key, outside the schema.\<close>

definition mars_env :: env where
  "mars_env =
     bare_env\<lparr>oracle_reply := (\<lambda>q. Reply ''Sure: {\"region\": \"mars\"}''),
              json_loads := (\<lambda>s. if s = ''{\"region\": \"mars\"}''
                                 then Some [(''region'', PStr ''mars'')] else None)\<rparr>"


text \<open>An oracle whose reply has braces but does not decode, and one that decodes to \<open>{}\<close>.\<close>

definition garbled_env :: env where
  "garbled_env = bare_env\<lparr>oracle_reply := (\<lambda>q. Reply ''{variables: temperature}'')\<rparr>"

definition empty_object_env :: env where
  "empty_object_env =
     bare_env\<lparr>oracle_reply := (\<lambda>q. Reply ''{}''),
              json_loads := (\<lambda>s. if s = ''{}'' then Some [] else None)\<rparr>"

definition chatty_env :: env where
  "chatty_env = bare_env\<lparr>oracle_reply := (\<lambda>q. Reply ''I cannot parse that.'')\<rparr>"

text \<open>The two rows of the scenario: one inside the box near India, one at longitude 200.\<close>

definition scenario_rows :: dataframe where
  "scenario_rows = \<lparr>columns = [''lon'', ''lat''], rows = [[Num 75, Num 15], [Num 200, Num 15]]\<rparr>"

text \<open>
  The parameters that line 110 to 115 make of \<open>average temperature near india\<close> when no
  oracle answers.
\<close>

definition near_india_params :: pydict where
  "near_india_params =
     [(''variables'', PList [PStr ''temperature'']),
      (''region'', PStr ''near india''),
      (''years'', PInt 5),
      (''query_type'', PStr ''summary''),
      (''bbox'', PList [PInt 68, PInt 98, PInt 6, PInt 30])]"

text \<open>A CSV whose only observation lies east of the box near India.\<close>

definition far_table :: dataframe where
  "far_table =
     \<lparr>columns = [''time'', ''lon'', ''lat'', ''temperature'', ''salinity'', ''float_id''],
      rows = [[Stamp (2025, 1, 1, 0), Num 120, Num 15, Num 20, Num 35, Txt ''F1'']]\<rparr>"

definition far_env :: env where
  "far_env = bare_env\<lparr>demo := Csv far_table\<rparr>"

text \<open>A table of three rows, the second without a temperature.\<close>

definition gappy_table :: dataframe where
  "gappy_table =
     \<lparr>columns = [''time'', ''lon'', ''lat'', ''temperature''],
      rows = [[Stamp (2025, 1, 1, 0), Num 75, Num 15, Num 10],
              [Stamp (2025, 1, 2, 0), Num 76, Num 15, Null],
              [Stamp (2025, 1, 3, 0), Num 77, Num 15, Num 20]]\<rparr>"

definition summary_params :: pydict where
  "summary_params =
     [(''variables'', PList [PStr ''temperature'']), (''query_type'', PStr ''summary'')]"




text \<open>A table whose time column holds a text that is not a date, and one with a date.\<close>

definition raw_time_table :: dataframe where
  "raw_time_table =
     \<lparr>columns = [''time'', ''lat'', ''lon'', ''temperature''],
      rows = [[Txt ''soon'', Num 15, Num 75, Num 20]]\<rparr>"

definition clean_table :: dataframe where
  "clean_table =
     \<lparr>columns = [''time'', ''lat'', ''lon'', ''temperature''],
      rows = [[Stamp (2025, 1, 1, 0), Num 15, Num 75, Num 20]]\<rparr>"

definition trend_params :: pydict where
  "trend_params =
     [(''variables'', PList [PStr ''temperature'']), (''query_type'', PStr ''trend'')]"

text \<open>A time cell as the parsing of dates leaves it: a timestamp or a missing value.\<close>

fun parsed_time :: "cell \<Rightarrow> bool" where
  "parsed_time Null = True"
| "parsed_time (Stamp t) = True"
| "parsed_time (Num x) = False"
| "parsed_time (Txt s) = False"

text \<open>A table with good coordinates and a temperature that is not a number.\<close>

definition text_temperature_table :: dataframe where
  "text_temperature_table =
     \<lparr>columns = [''lat'', ''lon'', ''temperature''],
      rows = [[Num 15, Num 75, Txt ''abc'']]\<rparr>"

section \<open>Verified properties\<close>

subsection \<open>Helper lemmas on columns and masks\<close>

lemma collect_map_ok:
  "list_all (\<lambda>r. numeric_or_null (g r)) xs \<Longrightarrow>
   collect (map (\<lambda>r. compare_num p (g r)) xs) =
     Inr (map (\<lambda>r. case g r of Num x \<Rightarrow> p x | _ \<Rightarrow> False) xs)"
  by (induction xs) (auto split: cell.splits elim: numeric_or_null.elims)

lemma select_map:
  "map fst (filter snd (zip xs (map f xs))) = filter f xs"
  by (induction xs) auto

lemma series_cmp_ok:
  "c \<in> set (columns df) \<Longrightarrow>
   list_all (\<lambda>r. numeric_or_null (cell_at (columns df) r c)) (rows df) \<Longrightarrow>
   series_cmp df c p =
     Inr (map (\<lambda>r. case cell_at (columns df) r c of Num x \<Rightarrow> p x | _ \<Rightarrow> False) (rows df))"
  by (simp add: series_cmp_def column_def col_values_def collect_map_ok comp_def)

lemma mask_and_map: "mask_and (map f xs) (map g xs) = map (\<lambda>x. f x \<and> g x) xs"
  by (induction xs) (auto simp: mask_and_def)

lemma bbox_filter_rows:
  assumes "''lon'' \<in> set (columns df)" and "''lat'' \<in> set (columns df)"
    and "list_all (\<lambda>r. numeric_or_null (cell_at (columns df) r ''lon'')) (rows df)"
    and "list_all (\<lambda>r. numeric_or_null (cell_at (columns df) r ''lat'')) (rows df)"
  shows "bbox_filter df [lon_min, lon_max, lat_min, lat_max] =
           Inr (df\<lparr>rows := filter (in_bbox (columns df) lon_min lon_max lat_min lat_max) (rows df)\<rparr>)"
proof -
  have "filter (\<lambda>r.
          (((case cell_at (columns df) r ''lon'' of Num x \<Rightarrow> of_int lon_min \<le> x | _ \<Rightarrow> False) \<and>
            (case cell_at (columns df) r ''lon'' of Num x \<Rightarrow> x \<le> of_int lon_max | _ \<Rightarrow> False)) \<and>
            (case cell_at (columns df) r ''lat'' of Num x \<Rightarrow> of_int lat_min \<le> x | _ \<Rightarrow> False)) \<and>
            (case cell_at (columns df) r ''lat'' of Num x \<Rightarrow> x \<le> of_int lat_max | _ \<Rightarrow> False))
          (rows df)
      = filter (in_bbox (columns df) lon_min lon_max lat_min lat_max) (rows df)"
    by (rule filter_cong) (auto simp: in_bbox_def split: cell.splits)
  then show ?thesis
    using assms
    by (simp add: bbox_filter_def and_then_def series_cmp_ok mask_and_map select_def select_map)
qed

subsection \<open>C6: the bounding box is inclusive on all four bounds\<close>

text \<open>
  C6. On a table whose \<open>lon\<close> and \<open>lat\<close> columns hold numbers or missing values, the
  bounding-box filter of line 15 returns (it does not raise) exactly the rows with
  \<open>lon_min \<le> lon \<le> lon_max\<close> and \<open>lat_min \<le> lat \<le> lat_max\<close>, each bound included, in
  their order; a row violating a bound, or missing a coordinate, is excluded.
\<close>

theorem bbox_filter_inclusive:
  assumes "''lon'' \<in> set (columns df)" and "''lat'' \<in> set (columns df)"
    and "list_all (\<lambda>r. numeric_or_null (cell_at (columns df) r ''lon'')) (rows df)"
    and "list_all (\<lambda>r. numeric_or_null (cell_at (columns df) r ''lat'')) (rows df)"
  shows "bbox_filter df [lon_min, lon_max, lat_min, lat_max] =
           Inr (df\<lparr>rows := filter (in_bbox (columns df) lon_min lon_max lat_min lat_max) (rows df)\<rparr>)"
  using assms by (rule bbox_filter_rows)

text \<open>
  The scenario of the specification: under the box \<open>[68, 98, 6, 30]\<close> the row at
  \<open>lon = 75, lat = 15\<close> is kept and the row at \<open>lon = 200\<close> is dropped.
\<close>

theorem bbox_filter_inclusive_witness:
  "bbox_filter scenario_rows [68, 98, 6, 30] = Inr (scenario_rows\<lparr>rows := [[Num 75, Num 15]]\<rparr>)"
  using bbox_filter_inclusive [of scenario_rows 68 98 6 30]
  by (simp add: scenario_rows_def in_bbox_def cell_at_def)

subsection \<open>Helper lemmas on parameter dictionaries\<close>











text \<open>Rules that evaluate the parsers on a concrete text.\<close>

lemmas parser_eval =
  parse_query_offline_def lower_def lower_char_def detect_time_def detect_query_type_def
  detect_region_def detect_variables_def default_params_def dict_set_def REGION_PRESETS_def
  match_last_at_def match_years_at_def is_digit_def is_space_def is_sep_def four_digits_def
  int_of_digits_def digit_value_def Let_def

lemmas oracle_eval =
  adopted_def interpret_query_def parse_query_with_openai_def search_braces_def strip_def
  bare_env_def

subsection \<open>C3: the relative and the absolute time pattern\<close>




subsection \<open>C4: when the oracle's output is adopted\<close>

text \<open>
  C4 as stated fails: an oracle reply that decodes to the object with the single key
  \<open>region\<close> violates the schema (no \<open>variables\<close>, no \<open>query_type\<close>), yet it is adopted
  as the parameters and the heuristic parser's result is not used. Nothing in
  \<open>parse_query_with_openai\<close> or at line 110 checks the keys.
\<close>

theorem schema_violation_adopted_counterexample:
  "adopted mars_env ''salinity near india'' \<and>
   interpret_query mars_env ''salinity near india'' = [(''region'', PStr ''mars'')] \<and>
   \<not> matches_schema (interpret_query mars_env ''salinity near india'') \<and>
   interpret_query mars_env ''salinity near india'' \<noteq> parse_query_offline ''salinity near india''"
  by (simp add: oracle_eval mars_env_def matches_schema_def parser_eval)

text \<open>
  C4, amended. The oracle's output is adopted exactly when the reply holds a brace pair
  whose text decodes to a non-empty object, whatever its keys; in every other case (no
  client, a failing call, a reply without a brace pair, a brace text that does not
  decode, the empty object) the heuristic parser's result is used.
\<close>

theorem oracle_adopted_iff_nonempty_object:
  "(parse_query_with_openai E q = Some j \<and> j \<noteq> [] \<longrightarrow> interpret_query E q = j) \<and>
   (parse_query_with_openai E q = Some [] \<longrightarrow> interpret_query E q = parse_query_offline q) \<and>
   (oracle_reply E q = NoClient \<or> oracle_reply E q = CallFails \<longrightarrow>
      interpret_query E q = parse_query_offline q) \<and>
   (oracle_reply E q = Reply text \<and> search_braces (strip text) = None \<longrightarrow>
      interpret_query E q = parse_query_offline q) \<and>
   (oracle_reply E q = Reply text \<and> search_braces (strip text) = Some m \<and> json_loads E m = None \<longrightarrow>
      interpret_query E q = parse_query_offline q)"
  by (auto simp: interpret_query_def parse_query_with_openai_def)

theorem oracle_adopted_iff_nonempty_object_witness:
  "interpret_query mars_env ''salinity near india'' = [(''region'', PStr ''mars'')] \<and>
   interpret_query empty_object_env ''salinity near india'' = parse_query_offline ''salinity near india'' \<and>
   interpret_query bare_env ''salinity near india'' = parse_query_offline ''salinity near india'' \<and>
   interpret_query chatty_env ''salinity near india'' = parse_query_offline ''salinity near india'' \<and>
   interpret_query garbled_env ''salinity near india'' = parse_query_offline ''salinity near india''"
proof -
  let ?q = "''salinity near india''"
  have a: "parse_query_with_openai mars_env ?q = Some [(''region'', PStr ''mars'')]"
    by (simp add: oracle_eval is_space_def mars_env_def)
  have b: "parse_query_with_openai empty_object_env ?q = Some []"
    by (simp add: oracle_eval is_space_def empty_object_env_def)
  have c: "oracle_reply bare_env ?q = NoClient"
    by (simp add: bare_env_def)
  have d: "oracle_reply chatty_env ?q = Reply ''I cannot parse that.''"
    "search_braces (strip ''I cannot parse that.'') = None"
    by (simp_all add: chatty_env_def oracle_eval is_space_def)
  have e: "oracle_reply garbled_env ?q = Reply ''{variables: temperature}''"
    "search_braces (strip ''{variables: temperature}'') = Some ''{variables: temperature}''"
    "json_loads garbled_env ''{variables: temperature}'' = None"
    by (simp_all add: garbled_env_def oracle_eval is_space_def)
  show ?thesis
    using oracle_adopted_iff_nonempty_object [of mars_env ?q "[(''region'', PStr ''mars'')]"]
      oracle_adopted_iff_nonempty_object [of empty_object_env ?q]
      oracle_adopted_iff_nonempty_object [of bare_env ?q]
      oracle_adopted_iff_nonempty_object [of chatty_env ?q _ "''I cannot parse that.''"]
      oracle_adopted_iff_nonempty_object [of garbled_env ?q _ "''{variables: temperature}''"
        "''{variables: temperature}''"]
      a b c d e
    by simp
qed

subsection \<open>C5: interpretation returns a usable parameter set\<close>




subsection \<open>C7: the empty table\<close>

text \<open>
  C7. If the table is empty when the response building starts, the response is the fixed
  message \<open>No data found for the requested region/time.\<close> with an empty chart and an
  empty map fragment, whatever the parameters (the query type included) are, and the
  table is left as it is.
\<close>

theorem build_empty_table:
  "df_empty df \<Longrightarrow>
   build E df params =
     Inr (\<lparr>summary = ''No data found for the requested region/time.'',
           plot_html = Markup [], map_html = Markup []\<rparr>, df)"
  by (simp add: build_def no_data_def)

text \<open>With no live source and no CSV file, a map query is answered by the no-data response.\<close>

theorem build_empty_table_witness:
  "df_empty DataFrame \<and>
   build bare_env DataFrame [(''query_type'', PStr ''map'')] =
     Inr (\<lparr>summary = ''No data found for the requested region/time.'',
           plot_html = Markup [], map_html = Markup []\<rparr>, DataFrame)"
proof -
  have a: "df_empty DataFrame"
    by (simp add: df_empty_def DataFrame_def)
  show ?thesis
    using build_empty_table [OF a, of bare_env "[(''query_type'', PStr ''map'')]"] a
    by simp
qed

subsection \<open>Helper lemmas on the fallback chain\<close>

lemma show_nat_numeral: "show_nat 1 = ''1''" "show_nat 3 = ''3''"
  by code_simp+

lemma show_nat_small: "show_nat (Suc 0) = ''1''" "show_nat (Suc (Suc (Suc 0))) = ''3''"
  using show_nat_numeral by (simp_all add: numeral_3_eq_3)

lemma len_literal: "len \<lparr>columns = cs, rows = rs\<rparr> = length rs"
  by (simp add: len_def)

lemma five_years_back:
  "minus_years (2025, 6, 15, 0) 5 = (2020, 6, 15, 0)"
  "minus_years (2026, 6, 15, 0) 5 = (2021, 6, 15, 0)"
  by code_simp+

lemma alias_column_present: "short \<in> set (columns df) \<Longrightarrow> alias_column df short long = df"
  by (simp add: alias_column_def)

text \<open>The static tier, step by step, on a CSV that has its \<open>lon\<close> and \<open>lat\<close> columns.\<close>

lemma static_tier_window:
  assumes "demo E = Csv df" and "''lon'' \<in> set (columns df)" and "''lat'' \<in> set (columns df)"
    and "as_ints (param_bbox params) = Some box" and "bbox_filter df box = Inr df1"
    and "truthy (param_period_unit params)" and "truthy (param_period_num params)"
    and "window_start (now E) (param_period_num params) (param_period_unit params) = Inr start"
    and "''time'' \<in> set (columns df1)"
    and "collect (map (to_datetime E) (col_values df1 ''time'')) = Inr ts"
  shows "static_tier E params = Inr (select df1 (map (on_or_after start) ts))"
  using assms
  by (simp add: static_tier_def alias_column_present filter_by_bbox_and_time_def and_then_def)


lemma fetch_without_live:
  "live E = NoArgopy \<or> live E = LiveFails \<Longrightarrow> fetch_argo_data E params = static_tier E params"
  by (auto simp: fetch_argo_data_def live_tier_def)

lemmas build_eval =
  build_def dict_item_def df_empty_def and_then_def col_values_def cell_at_def
  average_summary_def column_mean_def no_data_def
  make_plot_def make_map_def coerce_time_def to_datetime_coerce_def dropna_def sort_by_time_def
  points_def row_feature_def optional_float_def py_float_def or_zero_def average_def
  len_literal show_nat_small Let_def

text \<open>
  The part of C1 that the code keeps: with no live source and no readable CSV, the table
  that reaches the response building is the empty table.
\<close>

lemma no_source_gives_empty_table:
  assumes "live E = NoArgopy \<or> live E = LiveFails" and "demo E = Missing \<or> demo E = Unreadable"
  shows "reload_if_empty E (fetched E params) = DataFrame"
proof -
  have "fetched E params = DataFrame"
    using assms by (auto simp: fetched_def fetch_without_live static_tier_def)
  then show ?thesis
    using assms(2) by (auto simp: reload_if_empty_def)
qed

text \<open>
  The part of C2 that the code keeps: on a column of numbers and missing values, the
  summary carries the mean of the values that are present; the count printed beside it
  is the number of rows.
\<close>

lemma average_summary_text:
  assumes "v \<in> set (columns df)" and "list_all numeric_or_null (col_values df v)"
  shows "average_summary E df (PStr v) =
           Inr (''Average '' @ v @ '': ''
                @ fmt2 E (if num_values (col_values df v) = [] then None
                          else Some (sum_list (num_values (col_values df v))
                                     / of_nat (length (num_values (col_values df v)))))
                @ '' (from '' @ show_nat (length (rows df)) @ '' data points).'')"
  using assms by (simp add: average_summary_def column_mean_def and_then_def len_def Let_def)

subsection \<open>C1: what reaches the response building when the filters exclude every row\<close>

text \<open>
  C1, evaluated at a failing input. The CSV holds one observation at longitude 120; the
  query \<open>average temperature near india\<close> asks for the box \<open>[68, 98, 6, 30]\<close>. The
  static tier of \<open>fetch_argo_data\<close> filters the CSV and returns a table of zero rows,
  as the claim says; then lines 124 to 129 of \<open>chat_view\<close> see an empty table and read
  the CSV again without any filter, so the table handed to the response building is the
  whole CSV, and the summary reports the observation outside the box instead of the
  no-data message.
\<close>

theorem unfiltered_reload_reaches_builder:
  "resolve_region (interpret_query far_env ''average temperature near india'') = Inr near_india_params \<and>
   fetch_argo_data far_env near_india_params = Inr (far_table\<lparr>rows := []\<rparr>) \<and>
   resolved_table far_env near_india_params = Inr far_table \<and>
   rows far_table = [[Stamp (2025, 1, 1, 0), Num 120, Num 15, Num 20, Num 35, Txt ''F1'']] \<and>
   answer far_env ''average temperature near india'' =
     Inr (\<lparr>summary = ''Average temperature: #.## (from 1 data points).'',
           plot_html = Markup [], map_html = Markup []\<rparr>, far_table)"
proof -
  have p: "resolve_region (interpret_query far_env ''average temperature near india'') =
             Inr near_india_params"
    by (simp add: oracle_eval far_env_def parser_eval resolve_region_def preset_box_def
        dict_get_def near_india_params_def)
  have box: "bbox_filter far_table [68, 98, 6, 30] = Inr (far_table\<lparr>rows := []\<rparr>)"
    using bbox_filter_rows [of far_table 68 98 6 30]
    by (simp add: far_table_def in_bbox_def cell_at_def)
  have s: "static_tier far_env near_india_params =
             Inr (select (far_table\<lparr>rows := []\<rparr>) (map (on_or_after (2020, 6, 15, 0)) []))"
  proof (rule static_tier_window [where df = far_table and box = "[68, 98, 6, 30]"])
    show "demo far_env = Csv far_table"
      by (simp add: far_env_def)
    show "''lon'' \<in> set (columns far_table)" "''lat'' \<in> set (columns far_table)"
      by (simp_all add: far_table_def)
    show "as_ints (param_bbox near_india_params) = Some [68, 98, 6, 30]"
      by (simp add: param_bbox_def dict_get_def near_india_params_def)
    show "bbox_filter far_table [68, 98, 6, 30] = Inr (far_table\<lparr>rows := []\<rparr>)"
      by (rule box)
    show "truthy (param_period_unit near_india_params)" "truthy (param_period_num near_india_params)"
      by (simp_all add: param_period_unit_def param_period_num_def dict_get_def near_india_params_def)
    show "window_start (now far_env) (param_period_num near_india_params)
            (param_period_unit near_india_params) = Inr (2020, 6, 15, 0)"
      by (simp add: param_period_unit_def param_period_num_def dict_get_def near_india_params_def
          window_start_def five_years_back far_env_def bare_env_def)
    show "''time'' \<in> set (columns (far_table\<lparr>rows := []\<rparr>))"
      by (simp add: far_table_def)
    show "collect (map (to_datetime far_env) (col_values (far_table\<lparr>rows := []\<rparr>) ''time'')) = Inr []"
      by (simp add: col_values_def)
  qed
  have f: "fetch_argo_data far_env near_india_params = Inr (far_table\<lparr>rows := []\<rparr>)"
    using s by (simp add: fetch_without_live far_env_def bare_env_def select_def)
  have fe: "fetched far_env near_india_params = far_table\<lparr>rows := []\<rparr>"
    by (simp add: fetched_def f)
  have re: "reload_if_empty far_env (far_table\<lparr>rows := []\<rparr>) = far_table"
    by (simp add: reload_if_empty_def df_empty_def far_env_def)
  have vs: "iterate (dict_get near_india_params ''variables'' (PList [])) = Inr [PStr ''temperature'']"
    by (simp add: dict_get_def near_india_params_def)
  have ec: "ensure_column far_table (PStr ''temperature'') = Inr far_table"
    by (simp add: ensure_column_def and_then_def far_table_def)
  have r: "resolved_table far_env near_india_params = Inr far_table"
    by (simp add: resolved_table_def fe re vs ec and_then_def)
  have b: "build far_env far_table near_india_params =
             Inr (\<lparr>summary = ''Average temperature: #.## (from 1 data points).'',
                   plot_html = Markup [], map_html = Markup []\<rparr>, far_table)"
    by (simp add: build_eval far_env_def bare_env_def far_table_def near_india_params_def)
  show ?thesis
    by (simp add: p f r b answer_def and_then_def) (simp add: far_table_def)
qed

subsection \<open>C2: the count that the summary reports\<close>

text \<open>
  C2, evaluated at a failing input. Of three rows, two have a temperature. The summary
  reports the mean of the two present values, 15, and reports it as taken from 3 data
  points: line 156 prints \<open>len(df)\<close>, the number of rows of the table, and not the
  number of rows with a value, which is 2.
\<close>

theorem summary_counts_all_rows:
  "build E gappy_table summary_params =
     Inr (\<lparr>summary = ''Average temperature: '' @ fmt2 E (Some 15) @ '' (from 3 data points).'',
           plot_html = Markup [], map_html = Markup []\<rparr>, gappy_table) \<and>
   length (num_values (col_values gappy_table ''temperature'')) = 2 \<and>
   length (rows gappy_table) = 3"
  by (simp add: build_eval gappy_table_def summary_params_def)

subsection \<open>C8: two resolutions against the static dataset\<close>




subsection \<open>C10: make_map on a table with coordinates\<close>

text \<open>
  C10, evaluated at a failing input. The table is not empty and has numeric \<open>lat\<close> and
  \<open>lon\<close> columns; its temperature cell is a text that is not a number. The conversion
  of line 118 is outside the \<open>try\<close> that guards the coordinates, so \<open>make_map\<close> raises
  ValueError and returns no fragment.
\<close>

theorem make_map_raises_on_text_temperature:
  "\<not> df_empty text_temperature_table \<and>
   ''lat'' \<in> set (columns text_temperature_table) \<and>
   ''lon'' \<in> set (columns text_temperature_table) \<and>
   make_map bare_env text_temperature_table = Inl ValueError"
  by (simp add: build_eval text_temperature_table_def bare_env_def)

subsection \<open>Helper lemmas on the renderers and the table\<close>

lemma cell_at_Cons:
  "cell_at (k # ks) (x # xs) c = (if k = c then x else cell_at ks xs c)"
  by (simp add: cell_at_def)

lemma set_cell_same: "set_cell cols r c (cell_at cols r c) = r"
  by (induction cols r c "cell_at cols r c" rule: set_cell.induct) (auto simp: cell_at_Cons)

lemma rows_unchanged:
  "list_all (\<lambda>r. f (cell_at cols r c) = cell_at cols r c) rs \<Longrightarrow>
   map (\<lambda>(r, v). set_cell cols r c v) (zip rs (map (\<lambda>r. f (cell_at cols r c)) rs)) = rs"
  by (induction rs) (auto simp: set_cell_same)

lemma coerce_parsed: "parsed_time c \<Longrightarrow> to_datetime_coerce E c = c"
  by (cases c) (auto simp: to_datetime_coerce_def)

lemma coerce_time_parsed:
  assumes "''time'' \<in> set (columns df)"
    and "list_all (\<lambda>r. parsed_time (cell_at (columns df) r ''time'')) (rows df)"
  shows "coerce_time E df = df"
proof -
  have "list_all (\<lambda>r. to_datetime_coerce E (cell_at (columns df) r ''time'') =
                      cell_at (columns df) r ''time'') (rows df)"
    using assms(2) by (induction "rows df") (auto simp: coerce_parsed list_all_iff)
  then show ?thesis
    using assms(1) by (simp add: coerce_time_def assign_def col_values_def comp_def rows_unchanged)
qed

lemma make_plot_effect:
  "make_plot E df v = Inr (p, d) \<Longrightarrow> d = df \<or> (''time'' \<in> set (columns df) \<and> d = coerce_time E df)"
  by (auto simp: make_plot_def and_then_def Let_def split: if_splits sum.splits)

lemma make_comparison_plot_effect:
  "make_comparison_plot E df = (p, d) \<Longrightarrow>
   d = df \<or> (''time'' \<in> set (columns df) \<and> d = coerce_time E df)"
  by (auto simp: make_comparison_plot_def Let_def split: if_splits)

lemma build_effect:
  "build E df params = Inr (resp, df') \<Longrightarrow>
   df' = df \<or> (''time'' \<in> set (columns df) \<and> df' = coerce_time E df)"
  by (auto simp: build_def and_then_def split: if_splits sum.splits prod.splits
      dest: make_plot_effect make_comparison_plot_effect)

subsection \<open>C9: the table after the response building\<close>

text \<open>
  C9 as stated fails: \<open>make_plot\<close> (line 15) and \<open>make_comparison_plot\<close> (line 51) assign
  the coerced dates to the \<open>time\<close> column of the table they are given, which is the
  caller's table. A trend query on a table whose time cell is the text \<open>soon\<close> leaves
  that cell missing after the response building, and \<open>make_map\<close>, called next on the
  same table, no longer sees a time for the row.
\<close>

theorem time_column_overwritten_counterexample:
  "make_plot bare_env raw_time_table (PStr ''temperature'') =
     Inr (Markup ''<div><em>No valid data to plot.</em></div>'',
          raw_time_table\<lparr>rows := [[Null, Num 15, Num 75, Num 20]]\<rparr>) \<and>
   build bare_env raw_time_table trend_params =
     Inr (\<lparr>summary = ''Average temperature: #.## (from 1 data points).'',
           plot_html = Markup ''<div><em>No valid data to plot.</em></div>'',
           map_html = LeafletMap
             [\<lparr>float_id = Txt [], time_prop = None, temperature_prop = Some 20,
               salinity_prop = None, lon_coord = 75, lat_coord = 15\<rparr>] 15 75\<rparr>,
          raw_time_table\<lparr>rows := [[Null, Num 15, Num 75, Num 20]]\<rparr>) \<and>
   raw_time_table\<lparr>rows := [[Null, Num 15, Num 75, Num 20]]\<rparr> \<noteq> raw_time_table"
proof -
  have m: "make_plot bare_env raw_time_table (PStr ''temperature'') =
             Inr (Markup ''<div><em>No valid data to plot.</em></div>'',
                  raw_time_table\<lparr>rows := [[Null, Num 15, Num 75, Num 20]]\<rparr>)"
    by (simp add: make_plot_def df_empty_def and_then_def col_values_def cell_at_def
        coerce_time_def to_datetime_coerce_def dropna_def sort_by_time_def assign_def
        raw_time_table_def bare_env_def)
  have b: "build bare_env raw_time_table trend_params =
     Inr (\<lparr>summary = ''Average temperature: #.## (from 1 data points).'',
           plot_html = Markup ''<div><em>No valid data to plot.</em></div>'',
           map_html = LeafletMap
             [\<lparr>float_id = Txt [], time_prop = None, temperature_prop = Some 20,
               salinity_prop = None, lon_coord = 75, lat_coord = 15\<rparr>] 15 75\<rparr>,
          raw_time_table\<lparr>rows := [[Null, Num 15, Num 75, Num 20]]\<rparr>)"
    by (simp add: build_eval assign_def raw_time_table_def trend_params_def bare_env_def)
  show ?thesis
    by (simp add: m b) (simp add: raw_time_table_def)
qed

text \<open>
  C9, amended. \<open>make_map\<close> does not modify the table it is given. \<open>make_plot\<close> and
  \<open>make_comparison_plot\<close> build their derived tables from the input, and on a table
  with a \<open>time\<close> column they also overwrite that column in place with its dates coerced
  (a cell that is no date becomes missing). So after the response building the table is
  the input table, or the input table with its \<open>time\<close> column coerced; it is unchanged
  whenever every time cell already is a timestamp or missing.
\<close>

theorem build_changes_only_time_column:
  assumes "build E df params = Inr (resp, df')"
  shows "(df' = df \<or> (''time'' \<in> set (columns df) \<and> df' = coerce_time E df)) \<and>
         (list_all (\<lambda>r. parsed_time (cell_at (columns df) r ''time'')) (rows df) \<longrightarrow> df' = df)"
  using build_effect [OF assms] by (auto simp: coerce_time_parsed)

theorem build_changes_only_time_column_witness:
  "build bare_env clean_table trend_params =
     Inr (\<lparr>summary = ''Average temperature: #.## (from 1 data points).'',
           plot_html = LineChart ''temperature'' [(Stamp (2025, 1, 1, 0), Num 20)],
           map_html = LeafletMap
             [\<lparr>float_id = Txt [], time_prop = Some (Stamp (2025, 1, 1, 0)),
               temperature_prop = Some 20, salinity_prop = None, lon_coord = 75,
               lat_coord = 15\<rparr>] 15 75\<rparr>,
          clean_table) \<and>
   list_all (\<lambda>r. parsed_time (cell_at (columns clean_table) r ''time'')) (rows clean_table)"
proof -
  have b: "build bare_env clean_table trend_params =
     Inr (\<lparr>summary = ''Average temperature: #.## (from 1 data points).'',
           plot_html = LineChart ''temperature'' [(Stamp (2025, 1, 1, 0), Num 20)],
           map_html = LeafletMap
             [\<lparr>float_id = Txt [], time_prop = Some (Stamp (2025, 1, 1, 0)),
               temperature_prop = Some 20, salinity_prop = None, lon_coord = 75,
               lat_coord = 15\<rparr>] 15 75\<rparr>,
          clean_table\<lparr>rows := [[Stamp (2025, 1, 1, 0), Num 15, Num 75, Num 20]]\<rparr>)"
    by (simp add: build_eval assign_def clean_table_def trend_params_def bare_env_def)
  have p: "list_all (\<lambda>r. parsed_time (cell_at (columns clean_table) r ''time'')) (rows clean_table)"
    by (simp add: clean_table_def cell_at_def)
  show ?thesis
    using build_changes_only_time_column [OF b] p b by simp
qed

subsection \<open>What holds of make_map: the centre of the view\<close>

text \<open>
  The part of C10 that the code keeps: the division of line 132 never sees an empty
  list, \<open>make_map\<close> never raises ZeroDivisionError, the centre is \<open>(0, 0)\<close> when no row
  yields a feature, and a fragment is returned whenever the temperature and salinity
  cells are numbers or missing.
\<close>

lemma average_or_zero:
  "average (or_zero xs) = Inr (sum_list (or_zero xs) / of_nat (length (or_zero xs)))"
  by (simp add: average_def or_zero_def)

lemma average_no_rows: "average (or_zero []) = Inr 0"
  by (simp add: average_def or_zero_def)

lemma optional_float_error:
  "optional_float E cols r c = Inl e \<Longrightarrow> e = ValueError \<or> e = TypeError"
  by (auto simp: optional_float_def py_float_def and_then_def
      split: if_splits cell.splits option.splits)

lemma row_feature_error:
  "row_feature E cols r = Inl e \<Longrightarrow> e = ValueError \<or> e = TypeError"
  by (auto simp: row_feature_def and_then_def split: sum.splits dest: optional_float_error)

lemma features_of_error:
  "features_of E cols rs = Inl e \<Longrightarrow> e = ValueError \<or> e = TypeError"
  by (induction rs arbitrary: e)
    (auto simp: and_then_def split: sum.splits dest: row_feature_error)

lemma make_map_never_divides_by_zero: "make_map E df \<noteq> Inl ZeroDivisionError"
  by (auto simp: make_map_def and_then_def average_or_zero split: sum.splits
      dest: features_of_error)

lemma make_map_no_features:
  "\<not> df_empty df \<Longrightarrow> ''lat'' \<in> set (columns df) \<Longrightarrow> ''lon'' \<in> set (columns df) \<Longrightarrow>
   features_of E (columns df) (rows (dropna df [''lat'', ''lon''])) = Inr [] \<Longrightarrow>
   make_map E df = Inr (LeafletMap [] 0 0)"
  by (simp add: make_map_def and_then_def average_no_rows)

lemma optional_float_numeric:
  "numeric_or_null (cell_at cols r c) \<Longrightarrow> \<exists>x. optional_float E cols r c = Inr x"
  by (cases "cell_at cols r c") (auto simp: optional_float_def py_float_def and_then_def)

lemma row_feature_numeric:
  "numeric_or_null (cell_at cols r ''temperature'') \<Longrightarrow>
   numeric_or_null (cell_at cols r ''salinity'') \<Longrightarrow> \<exists>f. row_feature E cols r = Inr f"
  using optional_float_numeric [of cols r "''temperature''" E]
    optional_float_numeric [of cols r "''salinity''" E]
  by (auto simp: row_feature_def and_then_def split: sum.splits)

lemma features_of_numeric:
  "list_all (\<lambda>r. numeric_or_null (cell_at cols r ''temperature'') \<and>
                 numeric_or_null (cell_at cols r ''salinity'')) rs \<Longrightarrow>
   \<exists>fs. features_of E cols rs = Inr fs"
proof (induction rs)
  case Nil
  then show ?case by simp
next
  case (Cons r rs)
  then obtain f fs where "row_feature E cols r = Inr f" "features_of E cols rs = Inr fs"
    using row_feature_numeric [of cols r E] by auto
  then show ?case by (simp add: and_then_def)
qed

lemma make_map_numeric_returns:
  assumes "\<not> df_empty df" and "''lat'' \<in> set (columns df)" and "''lon'' \<in> set (columns df)"
    and "list_all (\<lambda>r. numeric_or_null (cell_at (columns df) r ''temperature'') \<and>
                       numeric_or_null (cell_at (columns df) r ''salinity'')) (rows df)"
  shows "\<exists>fs. make_map E df =
           Inr (LeafletMap fs
                  (sum_list (or_zero (map lat_coord fs)) / of_nat (length (or_zero (map lat_coord fs))))
                  (sum_list (or_zero (map lon_coord fs)) / of_nat (length (or_zero (map lon_coord fs)))))"
proof -
  have "list_all (\<lambda>r. numeric_or_null (cell_at (columns df) r ''temperature'') \<and>
                      numeric_or_null (cell_at (columns df) r ''salinity''))
          (rows (dropna df [''lat'', ''lon'']))"
    using assms(4) by (simp add: dropna_def list_all_iff)
  then obtain fs where "features_of E (columns df) (rows (dropna df [''lat'', ''lon''])) = Inr fs"
    using features_of_numeric by blast
  then show ?thesis
    using assms(1-3) by (simp add: make_map_def and_then_def average_or_zero)
qed

end
